theory Spec2Isabelle
  imports Main "HOL-Library.Word" "HOL-Library.List_Lexorder" "HOL-Library.Monad_Syntax"
begin

unbundle bit_operations_syntax

section \<open>Bytes, slices and the big-endian helpers of encoding/binary\<close>

type_synonym byte = "8 word"
type_synonym uint16 = "16 word"
type_synonym uint64 = "64 word"

text \<open>
  A Go slice \<open>[]byte\<close> is a window on a backing array: \<open>elems\<close> are the
  \<open>len(s)\<close> bytes the slice shows, \<open>spare\<close> the bytes of the backing array
  between \<open>len(s)\<close> and \<open>cap(s)\<close>. A slice expression \<open>s[lo:hi]\<close> on a slice
  is in range when \<open>0 \<le> lo \<le> hi \<le> cap(s)\<close> and panics otherwise, so it may
  reach into the spare bytes.
\<close>

record slice =
  elems :: "byte list"
  spare :: "byte list"

definition len :: "slice \<Rightarrow> nat" where
  "len s = length (elems s)"

definition cap :: "slice \<Rightarrow> nat" where
  "cap s = length (elems s) + length (spare s)"

definition slice_expr :: "slice \<Rightarrow> nat \<Rightarrow> nat \<Rightarrow> slice option" where
  "slice_expr s lo hi =
     (if lo \<le> hi \<and> hi \<le> cap s
      then Some \<lparr>elems = take (hi - lo) (drop lo (elems s @ spare s)),
                 spare = drop hi (elems s @ spare s)\<rparr>
      else None)"

text \<open>A freshly allocated slice with no room beyond its length.\<close>

definition exact :: "byte list \<Rightarrow> slice" where
  "exact bs = \<lparr>elems = bs, spare = []\<rparr>"

text \<open>\<open>binary.BigEndian\<close>: the readers index \<open>b[7]\<close> (or \<open>b[1]\<close>) first and
  panic on a shorter slice.\<close>

definition Uint16 :: "byte list \<Rightarrow> uint16 option" where
  "Uint16 b =
     (if length b < 2 then None
      else Some (ucast (b ! 1) OR push_bit 8 (ucast (b ! 0))))"

definition Uint64 :: "byte list \<Rightarrow> uint64 option" where
  "Uint64 b =
     (if length b < 8 then None
      else Some (ucast (b ! 7) OR push_bit 8 (ucast (b ! 6)) OR
                 push_bit 16 (ucast (b ! 5)) OR push_bit 24 (ucast (b ! 4)) OR
                 push_bit 32 (ucast (b ! 3)) OR push_bit 40 (ucast (b ! 2)) OR
                 push_bit 48 (ucast (b ! 1)) OR push_bit 56 (ucast (b ! 0))))"

text \<open>The bytes \<open>PutUint16\<close> and \<open>PutUint64\<close> store, first byte first.\<close>

definition PutUint16 :: "uint16 \<Rightarrow> byte list" where
  "PutUint16 v = [ucast (drop_bit 8 v), ucast v]"

definition PutUint64 :: "uint64 \<Rightarrow> byte list" where
  "PutUint64 v =
     [ucast (drop_bit 56 v), ucast (drop_bit 48 v), ucast (drop_bit 40 v),
      ucast (drop_bit 32 v), ucast (drop_bit 24 v), ucast (drop_bit 16 v),
      ucast (drop_bit 8 v), ucast v]"

text \<open>Storing \<open>bs\<close> into the array \<open>arr\<close> from index \<open>pos\<close> on, as
  \<open>PutUint64(v[8:16], x)\<close> does on the window of a fixed array.\<close>

definition store_at :: "byte list \<Rightarrow> nat \<Rightarrow> byte list \<Rightarrow> byte list" where
  "store_at arr pos bs = take pos arr @ bs @ drop (pos + length bs) arr"

text \<open>Go's builtin \<open>copy(dst, src)\<close>: overwrites the first
  \<open>min(len(dst), len(src))\<close> elements of \<open>dst\<close>.\<close>

definition copy :: "byte list \<Rightarrow> byte list \<Rightarrow> byte list" where
  "copy dst src =
     take (min (length dst) (length src)) src @ drop (min (length dst) (length src)) dst"

section \<open>Commitment short keys (domain\_committed.go)\<close>

definition decodeU64 :: "byte list \<Rightarrow> uint64" where
  "decodeU64 from = foldl (\<lambda>i b. push_bit 8 i OR ucast b) 0 from"

definition encodeU64 :: "uint64 \<Rightarrow> byte list \<Rightarrow> byte list" where
  "encodeU64 i to =
     (if i < push_bit 8 1 then to @ [ucast i]
      else if i < push_bit 16 1 then to @ [ucast (drop_bit 8 i), ucast i]
      else if i < push_bit 24 1 then
        to @ [ucast (drop_bit 16 i), ucast (drop_bit 8 i), ucast i]
      else if i < push_bit 32 1 then
        to @ [ucast (drop_bit 24 i), ucast (drop_bit 16 i), ucast (drop_bit 8 i), ucast i]
      else if i < push_bit 40 1 then
        to @ [ucast (drop_bit 32 i), ucast (drop_bit 24 i), ucast (drop_bit 16 i),
              ucast (drop_bit 8 i), ucast i]
      else if i < push_bit 48 1 then
        to @ [ucast (drop_bit 40 i), ucast (drop_bit 32 i), ucast (drop_bit 24 i),
              ucast (drop_bit 16 i), ucast (drop_bit 8 i), ucast i]
      else if i < push_bit 56 1 then
        to @ [ucast (drop_bit 48 i), ucast (drop_bit 40 i), ucast (drop_bit 32 i),
              ucast (drop_bit 24 i), ucast (drop_bit 16 i), ucast (drop_bit 8 i), ucast i]
      else
        to @ [ucast (drop_bit 56 i), ucast (drop_bit 48 i), ucast (drop_bit 40 i),
              ucast (drop_bit 32 i), ucast (drop_bit 24 i), ucast (drop_bit 16 i),
              ucast (drop_bit 8 i), ucast i])"

text \<open>\<open>shortenedKey\<close> reads the step from \<open>apk[:2]\<close> and the offset from
  \<open>apk[1:]\<close>; \<open>None\<close> is the panic of a slice expression out of range.\<close>

definition shortenedKey :: "slice \<Rightarrow> (uint16 \<times> uint64) option" where
  "shortenedKey apk =
     do {
       hd2 \<leftarrow> slice_expr apk 0 2;
       step \<leftarrow> Uint16 (elems hd2);
       tl1 \<leftarrow> slice_expr apk 1 (len apk);
       Some (step, decodeU64 (elems tl1))
     }"

text \<open>The short key \<open>replaceKeyWithReference\<close> builds for a file step and an
  offset: the step in \<open>numBuf\<close>, then \<open>encodeU64(offset, numBuf[:])\<close>.\<close>

definition shortKeyOf :: "uint16 \<Rightarrow> uint64 \<Rightarrow> byte list" where
  "shortKeyOf step offset = encodeU64 offset (store_at [0, 0] 0 (PutUint16 step))"

section \<open>The commitment state record\<close>

text \<open>
  Errors are values. \<open>Errorf\<close> is \<open>fmt.Errorf\<close> with its format string and
  integer arguments, \<open>Wrap\<close> the \<open>%w\<close> wrapping of another error, \<open>Opaque\<close>
  an error handed back by a collaborator outside these files. A \<open>failure\<close> is
  either an error the function returns or a run-time panic.
\<close>

datatype error = Errorf string "nat list" | Wrap string error | Opaque string

datatype failure = Err error | Panic

record commitmentState =
  txNum :: uint64
  blockNum :: uint64
  trieState :: "byte list"

definition Decode :: "slice \<Rightarrow> failure + commitmentState" where
  "Decode buf =
     (if len buf < 10 then Inl (Err (Errorf ''ivalid commitment state buffer size'' []))
      else
        case
          do {
            b0 \<leftarrow> slice_expr buf 0 8;
            tx \<leftarrow> Uint64 (elems b0);
            b1 \<leftarrow> slice_expr buf 8 16;
            blk \<leftarrow> Uint64 (elems b1);
            b2 \<leftarrow> slice_expr buf 16 18;
            n \<leftarrow> Uint16 (elems b2);
            let ts = replicate (unat n) (0 :: byte);
            if length ts = 0 \<and> len buf = 10
            then Some \<lparr>txNum = tx, blockNum = blk, trieState = ts\<rparr>
            else do {
              b3 \<leftarrow> slice_expr buf 18 (18 + length ts);
              Some \<lparr>txNum = tx, blockNum = blk, trieState = copy ts (elems b3)\<rparr>
            }
          }
        of None \<Rightarrow> Inl Panic
         | Some cs \<Rightarrow> Inr cs)"

text \<open>\<open>Encode\<close> fills an 18-byte array and writes it and the trie state to a
  \<open>bytes.Buffer\<close>, whose \<open>Write\<close> always returns a nil error; the length is
  converted with \<open>uint16(len(cs.trieState))\<close>, which truncates.\<close>

definition Encode :: "commitmentState \<Rightarrow> failure + byte list" where
  "Encode cs =
     (let v0 = replicate 18 (0 :: byte);
          v1 = store_at v0 0 (PutUint64 (txNum cs));
          v2 = store_at v1 8 (PutUint64 (blockNum cs));
          v3 = store_at v2 16 (PutUint16 (of_nat (length (trieState cs))))
      in Inr (v3 @ trieState cs))"

text \<open>The record layout in the spec's words: the \<open>n\<close>-byte big-endian form of a
  number is its \<open>n\<close> base-256 digits, most significant first.\<close>

definition spec_big_endian :: "nat \<Rightarrow> nat \<Rightarrow> byte list" where
  "spec_big_endian n x = map (\<lambda>i. of_nat (x div 256 ^ (n - 1 - i) mod 256)) [0..<n]"

section \<open>The touch accumulator and the commitment domain\<close>

text \<open>Modelled from the spec: \<open>length.Addr\<close> and \<open>length.Hash\<close> are declared
  outside these files; the spec gives the 20-byte address and the 52-byte
  address-and-slot key, so the hash length is 32.\<close>

definition Addr :: nat where
  "Addr = 20"

definition Hash :: nat where
  "Hash = 32"

text \<open>\<open>commitment.Update\<close> is declared outside these files; these are the fields
  the touch functions read and write, \<open>CodeHashOrStorage\<close> being an array of
  \<open>length.Hash\<close> bytes.\<close>

record Update =
  Flags :: byte
  Balance :: "256 word"
  Nonce :: uint64
  CodeHashOrStorage :: "byte list"
  ValLength :: int

definition zeroUpdate :: Update where
  "zeroUpdate = \<lparr>Flags = 0, Balance = 0, Nonce = 0,
                  CodeHashOrStorage = replicate Hash 0, ValLength = 0\<rparr>"

record CommitmentItem =
  plainKey :: "byte list"
  hashedKey :: "byte list"
  update :: Update

text \<open>\<open>bytes.Compare\<close> is the lexicographic order of the unsigned bytes, which is
  the order of \<open>byte list\<close>.\<close>

definition commitmentItemLess :: "CommitmentItem \<Rightarrow> CommitmentItem \<Rightarrow> bool" where
  "commitmentItemLess i j = (hashedKey i < hashedKey j)"

text \<open>The B-tree \<open>commTree\<close> is an ordered set under \<open>commitmentItemLess\<close>: the list
  of its items in ascending order. Two items neither of which is less than the other
  are the same entry.\<close>

fun ReplaceOrInsert :: "CommitmentItem list \<Rightarrow> CommitmentItem \<Rightarrow> CommitmentItem list" where
  "ReplaceOrInsert [] c = [c]"
| "ReplaceOrInsert (x # xs) c =
     (if commitmentItemLess c x then c # x # xs
      else if commitmentItemLess x c then x # ReplaceOrInsert xs c
      else c # xs)"

definition treeGet :: "CommitmentItem list \<Rightarrow> CommitmentItem \<Rightarrow> CommitmentItem option" where
  "treeGet t c = find (\<lambda>x. \<not> commitmentItemLess x c \<and> \<not> commitmentItemLess c x) t"

text \<open>
  What the commitment domain calls outside these files: the flag constants, the account
  decoder and the trie of package \<open>commitment\<close>, the Keccak hash, and the embedded
  \<open>Domain\<close> (its state is \<open>'d\<close>, the trie's \<open>'t\<close>, a set of branch updates \<open>'b\<close>).
  \<open>DecodeForStorage\<close> gives \<open>None\<close> where it panics on a malformed value. The trie
  calls return the trie they leave behind with their results.
\<close>

record ('d, 't, 'b) externals =
  CODE_UPDATE :: byte
  DELETE_UPDATE :: byte
  BALANCE_UPDATE :: byte
  NONCE_UPDATE :: byte
  STORAGE_UPDATE :: byte
  DecodeForStorage :: "Update \<Rightarrow> byte list \<Rightarrow> Update option"
  keccak :: "byte list \<Rightarrow> byte list"
  RootHash :: "'t \<Rightarrow> 't \<times> byte list \<times> error option"
  Reset :: "'t \<Rightarrow> 't"
  SetTrace :: "'t \<Rightarrow> bool \<Rightarrow> 't"
  ReviewKeys :: "'t \<Rightarrow> byte list list \<Rightarrow> byte list list
                  \<Rightarrow> 't \<times> byte list \<times> 'b option \<times> error option"
  ProcessUpdates :: "'t \<Rightarrow> byte list list \<Rightarrow> byte list list \<Rightarrow> Update list
                  \<Rightarrow> 't \<times> byte list \<times> 'b option \<times> error option"
  SetState :: "'t \<Rightarrow> byte list \<Rightarrow> 't \<times> error option"
  SetTxNum :: "'d \<Rightarrow> uint64 \<Rightarrow> 'd"
  Get :: "'d \<Rightarrow> byte list \<Rightarrow> byte list \<Rightarrow> error + slice"

definition CommitmentModeDisabled :: nat where
  "CommitmentModeDisabled = 0"

definition CommitmentModeDirect :: nat where
  "CommitmentModeDirect = 1"

definition CommitmentModeUpdate :: nat where
  "CommitmentModeUpdate = 2"

record ('d, 't) DomainCommitted =
  domain :: 'd
  mode :: nat
  trace :: bool
  commTree :: "CommitmentItem list"
  patriciaTrie :: 't

text \<open>\<open>hashAndNibblizeKey\<close>: a key shorter than \<open>length.Addr\<close> panics, in
  \<open>key[:length.Addr]\<close> when the capacity is too small and in \<open>key[length.Addr:]\<close>
  otherwise.\<close>

definition nibblize :: "byte list \<Rightarrow> byte list" where
  "nibblize hashed = concat (map (\<lambda>b. [drop_bit 4 b AND 15, b AND 15]) hashed)"

definition hashAndNibblizeKey :: "('d, 't, 'b) externals \<Rightarrow> byte list \<Rightarrow> byte list option" where
  "hashAndNibblizeKey ext key =
     (if length key < Addr then None
      else
        let hashedKey0 = copy (replicate Hash 0) (keccak ext (take Addr key));
            hashedKey1 =
              (if length (drop Addr key) > 0
               then hashedKey0 @ copy (replicate Hash 0) (keccak ext (drop Addr key))
               else hashedKey0)
        in Some (nibblize hashedKey1))"

definition TouchPlainKey ::
  "('d, 't, 'b) externals \<Rightarrow> ('d, 't) DomainCommitted \<Rightarrow> byte list \<Rightarrow> byte list
   \<Rightarrow> (('d, 't) DomainCommitted \<Rightarrow> CommitmentItem \<Rightarrow> byte list \<Rightarrow> CommitmentItem option)
   \<Rightarrow> ('d, 't) DomainCommitted option" where
  "TouchPlainKey ext d key val fn =
     (if mode d = CommitmentModeDisabled then Some d
      else do {
        hk \<leftarrow> hashAndNibblizeKey ext key;
        let c = \<lparr>plainKey = key, hashedKey = hk, update = zeroUpdate\<rparr>;
        c' \<leftarrow> (if mode d > CommitmentModeDirect then fn d c val else Some c);
        Some (d\<lparr>commTree := ReplaceOrInsert (commTree d) c'\<rparr>)
      })"

definition TouchPlainKeyAccount ::
  "('d, 't, 'b) externals \<Rightarrow> ('d, 't) DomainCommitted \<Rightarrow> CommitmentItem \<Rightarrow> byte list
   \<Rightarrow> CommitmentItem option" where
  "TouchPlainKeyAccount ext d c val =
     (if length val = 0
      then Some (c\<lparr>update := (update c)\<lparr>Flags := DELETE_UPDATE ext\<rparr>\<rparr>)
      else do {
        u0 \<leftarrow> DecodeForStorage ext (update c) val;
        let u1 = u0\<lparr>Flags := BALANCE_UPDATE ext OR NONCE_UPDATE ext\<rparr>;
        (case treeGet (commTree d) \<lparr>plainKey = [], hashedKey = hashedKey c, update = zeroUpdate\<rparr> of
           None \<Rightarrow> Some (c\<lparr>update := u1\<rparr>)
         | Some item \<Rightarrow>
             if Flags (update item) AND CODE_UPDATE ext \<noteq> 0
             then Some (c\<lparr>update := u1\<lparr>Flags := Flags u1 OR CODE_UPDATE ext,
                          CodeHashOrStorage :=
                            copy (CodeHashOrStorage u1) (CodeHashOrStorage (update item))\<rparr>\<rparr>)
             else Some (c\<lparr>update := u1\<rparr>))
      })"

text \<open>\<open>TouchedKeyList\<close> walks the tree in ascending order and clears it.\<close>

definition TouchedKeyList ::
  "('d, 't) DomainCommitted
   \<Rightarrow> (byte list list \<times> byte list list \<times> Update list) \<times> ('d, 't) DomainCommitted" where
  "TouchedKeyList d =
     ((map plainKey (commTree d), map hashedKey (commTree d), map update (commTree d)),
      d\<lparr>commTree := []\<rparr>)"

text \<open>\<open>ComputeCommitment\<close> returns the domain it leaves behind and the triple
  \<open>(rootHash, branchNodeUpdates, err)\<close>; a nil slice is the empty list.\<close>

definition ComputeCommitment ::
  "('d, 't, 'b) externals \<Rightarrow> ('d, 't) DomainCommitted \<Rightarrow> bool
   \<Rightarrow> ('d, 't) DomainCommitted \<times> byte list \<times> 'b option \<times> error option" where
  "ComputeCommitment ext d trc =
     (case TouchedKeyList d of
        ((touchedKeys, hashedKeys, updates), d1) \<Rightarrow>
          if length touchedKeys = 0
          then (case RootHash ext (patriciaTrie d1) of
                  (t1, rootHash, err) \<Rightarrow> (d1\<lparr>patriciaTrie := t1\<rparr>, rootHash, None, err))
          else
            let t2 = SetTrace ext (Reset ext (patriciaTrie d1)) trc in
            if mode d1 = CommitmentModeDirect
            then (case ReviewKeys ext t2 touchedKeys hashedKeys of
                    (t3, rootHash, branchNodeUpdates, err) \<Rightarrow>
                      if err \<noteq> None then (d1\<lparr>patriciaTrie := t3\<rparr>, [], None, err)
                      else (d1\<lparr>patriciaTrie := t3\<rparr>, rootHash, branchNodeUpdates, err))
            else if mode d1 = CommitmentModeUpdate
            then (case ProcessUpdates ext t2 touchedKeys hashedKeys updates of
                    (t3, rootHash, branchNodeUpdates, err) \<Rightarrow>
                      if err \<noteq> None then (d1\<lparr>patriciaTrie := t3\<rparr>, [], None, err)
                      else (d1\<lparr>patriciaTrie := t3\<rparr>, rootHash, branchNodeUpdates, err))
            else (d1\<lparr>patriciaTrie := t2\<rparr>, [], None,
                  Some (Errorf ''invalid commitment mode: %d'' [mode d1])))"

text \<open>The reserved key \<open>"state"\<close>.\<close>

definition keyCommitmentState :: "byte list" where
  "keyCommitmentState = [115, 116, 97, 116, 101]"

text \<open>
  The search loop of \<open>SeekCommitment\<close>: it ends with the error of \<open>Get\<close>, or at a
  \<open>break\<close> with the latest state found; it need not end, and then the value is
  \<open>None\<close>. \<open>ctx.Get\<close> reads through the domain, at the transaction number set last.
\<close>

partial_function (option) seek_loop ::
  "('d, 't, 'b) externals \<Rightarrow> uint64 \<Rightarrow> 'd \<Rightarrow> uint16 \<Rightarrow> uint64 \<Rightarrow> slice
   \<Rightarrow> ('d \<times> (failure + slice)) option" where
  "seek_loop ext aggStep dm step latestTxNum latestState =
     (case Get ext dm keyCommitmentState (PutUint16 step) of
        Inl err \<Rightarrow> Some (dm, Inl (Err err))
      | Inr s \<Rightarrow>
          if len s < 8 then Some (dm, Inr latestState)
          else
            (case Uint64 (elems s) of
               None \<Rightarrow> Some (dm, Inl Panic)
             | Some v \<Rightarrow>
                 if v = latestTxNum \<and> len latestState \<noteq> 0 then Some (dm, Inr latestState)
                 else seek_loop ext aggStep (SetTxNum ext dm (v + aggStep))
                        (ucast (v div aggStep) + 1) v s))"

text \<open>
  \<open>SeekCommitment\<close> returns \<open>(0, err)\<close>, here \<open>Inl (Err err)\<close>, or \<open>(txNum, nil)\<close>,
  here \<open>Inr\<close> of the domain left behind and \<open>txNum\<close>; \<open>Inl Panic\<close> is a panic (the
  division by a zero \<open>aggStep\<close>, or a slice out of range in \<open>Decode\<close>).
\<close>

definition SeekCommitment ::
  "('d, 't, 'b) externals \<Rightarrow> ('d, 't) DomainCommitted \<Rightarrow> uint64 \<Rightarrow> uint64
   \<Rightarrow> (failure + ('d, 't) DomainCommitted \<times> uint64) option" where
  "SeekCommitment ext d aggStep sinceTx =
     (if aggStep = 0 then Some (Inl Panic)
      else
        let step = ucast (sinceTx div aggStep) - 1;
            latestTxNum = sinceTx - 1;
            dom0 = SetTxNum ext (domain d) latestTxNum
        in
          case seek_loop ext aggStep dom0 step latestTxNum (exact []) of
            None \<Rightarrow> None
          | Some (dom1, Inl f) \<Rightarrow> Some (Inl f)
          | Some (dom1, Inr latestState) \<Rightarrow>
              (case Decode latestState of
                 Inl (Err e) \<Rightarrow> Some (Inr (d\<lparr>domain := dom1\<rparr>, 0))
               | Inl Panic \<Rightarrow> Some (Inl Panic)
               | Inr latest \<Rightarrow>
                   (case SetState ext (patriciaTrie d) (trieState latest) of
                      (t1, Some err) \<Rightarrow> Some (Inl (Err err))
                    | (t1, None) \<Rightarrow>
                        Some (Inr (d\<lparr>domain := dom1, patriciaTrie := t1\<rparr>, txNum latest)))))"

section \<open>The aggregator (aggregator\_v3.go)\<close>

text \<open>
  The aggregator owns three histories (\<open>'h\<close>) and four inverted indices (\<open>'i\<close>).
  \<open>History\<close> and \<open>InvertedIndex\<close> are declared outside these files, so their
  states are type parameters and their methods the fields of \<open>components\<close>; \<open>'db\<close>
  is the read-only database, \<open>'c\<close> a collation, \<open>'f\<close> the files built for one step
  and \<open>'s\<close> a \<open>HistoryStep\<close>. \<open>LastKey\<close> is \<open>kv.LastKey\<close> inside \<open>db.View\<close>:
  \<open>Inl\<close> when the view fails.
\<close>

record ('h, 'i, 'db, 'c, 'f, 's) components =
  NewHistory :: "string \<Rightarrow> string \<Rightarrow> uint64 \<Rightarrow> string \<Rightarrow> bool \<Rightarrow> error + 'h"
  NewInvertedIndex :: "string \<Rightarrow> string \<Rightarrow> uint64 \<Rightarrow> string \<Rightarrow> error + 'i"
  h_endTxNumMinimax :: "'h \<Rightarrow> uint64"
  i_endTxNumMinimax :: "'i \<Rightarrow> uint64"
  h_endIndexedTxNumMinimax :: "'h \<Rightarrow> uint64"
  h_MakeSteps :: "'h \<Rightarrow> uint64 \<Rightarrow> 's list"
  h_collate :: "'h \<Rightarrow> uint64 \<Rightarrow> uint64 \<Rightarrow> uint64 \<Rightarrow> 'db \<Rightarrow> error + 'c"
  h_buildFiles :: "'h \<Rightarrow> uint64 \<Rightarrow> 'c \<Rightarrow> error + 'f"
  i_collate :: "'i \<Rightarrow> uint64 \<Rightarrow> uint64 \<Rightarrow> 'db \<Rightarrow> error + 'c"
  i_buildFiles :: "'i \<Rightarrow> uint64 \<Rightarrow> 'c \<Rightarrow> error + 'f"
  h_integrateFiles :: "'h \<Rightarrow> 'f \<Rightarrow> uint64 \<Rightarrow> uint64 \<Rightarrow> 'h"
  i_integrateFiles :: "'i \<Rightarrow> 'f \<Rightarrow> uint64 \<Rightarrow> uint64 \<Rightarrow> 'i"
  indexKeysTable :: "'h \<Rightarrow> string"
  LastKey :: "'db \<Rightarrow> string \<Rightarrow> error + byte list"

text \<open>What building files does outside the aggregator's memory is kept as a log of
  the collations and builds attempted, with the component's name and the step.\<close>

datatype effect = Collated string uint64 | Built string uint64

record ('h, 'i) AggregatorV3 =
  accounts :: 'h
  storage :: 'h
  code :: 'h
  logAddrs :: 'i
  logTopics :: 'i
  tracesFrom :: 'i
  tracesTo :: 'i
  dir :: string
  tmpdir :: string
  a_txNum :: uint64
  aggregationStep :: uint64
  keepInDB :: uint64
  maxTxNum :: uint64
  working :: bool
  workingMerge :: bool
  effects :: "effect list"

record 'f Agg22StaticFiles =
  sf_accounts :: 'f
  sf_storage :: 'f
  sf_code :: 'f
  sf_logAddrs :: 'f
  sf_logTopics :: 'f
  sf_tracesFrom :: 'f
  sf_tracesTo :: 'f

definition EndTxNumMinimax :: "('h, 'i) AggregatorV3 \<Rightarrow> uint64" where
  "EndTxNumMinimax a = maxTxNum a"

definition recalcMaxTxNum ::
  "('h, 'i, 'db, 'c, 'f, 's) components \<Rightarrow> ('h, 'i) AggregatorV3 \<Rightarrow> ('h, 'i) AggregatorV3" where
  "recalcMaxTxNum ops a =
     (let min0 = h_endTxNumMinimax ops (accounts a);
          min1 = (let txNum = h_endTxNumMinimax ops (storage a)
                  in if txNum < min0 then txNum else min0);
          min2 = (let txNum = h_endTxNumMinimax ops (code a)
                  in if txNum < min1 then txNum else min1);
          min3 = (let txNum = i_endTxNumMinimax ops (logAddrs a)
                  in if txNum < min2 then txNum else min2);
          min4 = (let txNum = i_endTxNumMinimax ops (logTopics a)
                  in if txNum < min3 then txNum else min3);
          min5 = (let txNum = i_endTxNumMinimax ops (tracesFrom a)
                  in if txNum < min4 then txNum else min4);
          min6 = (let txNum = i_endTxNumMinimax ops (tracesTo a)
                  in if txNum < min5 then txNum else min5)
      in a\<lparr>maxTxNum := min6\<rparr>)"

definition integrateFiles ::
  "('h, 'i, 'db, 'c, 'f, 's) components \<Rightarrow> ('h, 'i) AggregatorV3 \<Rightarrow> 'f Agg22StaticFiles
   \<Rightarrow> uint64 \<Rightarrow> uint64 \<Rightarrow> ('h, 'i) AggregatorV3" where
  "integrateFiles ops a sf txNumFrom txNumTo =
     recalcMaxTxNum ops
       (a\<lparr>accounts := h_integrateFiles ops (accounts a) (sf_accounts sf) txNumFrom txNumTo,
          storage := h_integrateFiles ops (storage a) (sf_storage sf) txNumFrom txNumTo,
          code := h_integrateFiles ops (code a) (sf_code sf) txNumFrom txNumTo,
          logAddrs := i_integrateFiles ops (logAddrs a) (sf_logAddrs sf) txNumFrom txNumTo,
          logTopics := i_integrateFiles ops (logTopics a) (sf_logTopics sf) txNumFrom txNumTo,
          tracesFrom := i_integrateFiles ops (tracesFrom a) (sf_tracesFrom sf) txNumFrom txNumTo,
          tracesTo := i_integrateFiles ops (tracesTo a) (sf_tracesTo sf) txNumFrom txNumTo\<rparr>)"

text \<open>\<open>ReopenFiles\<close> opens the seven components in turn and returns the first
  error wrapped; only when all open does it reach \<open>recalcMaxTxNum\<close>. The aggregator
  left behind by a failed call is not kept.\<close>

definition reopen_err :: "error \<Rightarrow> error" where
  "reopen_err err = Wrap ''ReopenFiles: %w'' err"

definition ReopenFiles ::
  "('h, 'i, 'db, 'c, 'f, 's) components \<Rightarrow> ('h, 'i) AggregatorV3
   \<Rightarrow> error + ('h, 'i) AggregatorV3" where
  "ReopenFiles ops a =
     (case NewHistory ops (dir a) (tmpdir a) (aggregationStep a) ''accounts'' False of
        Inl err \<Rightarrow> Inl (reopen_err err) | Inr acc \<Rightarrow>
     (case NewHistory ops (dir a) (tmpdir a) (aggregationStep a) ''storage'' False of
        Inl err \<Rightarrow> Inl (reopen_err err) | Inr sto \<Rightarrow>
     (case NewHistory ops (dir a) (tmpdir a) (aggregationStep a) ''code'' True of
        Inl err \<Rightarrow> Inl (reopen_err err) | Inr cod \<Rightarrow>
     (case NewInvertedIndex ops (dir a) (tmpdir a) (aggregationStep a) ''logaddrs'' of
        Inl err \<Rightarrow> Inl (reopen_err err) | Inr la \<Rightarrow>
     (case NewInvertedIndex ops (dir a) (tmpdir a) (aggregationStep a) ''logtopics'' of
        Inl err \<Rightarrow> Inl (reopen_err err) | Inr lt \<Rightarrow>
     (case NewInvertedIndex ops (dir a) (tmpdir a) (aggregationStep a) ''tracesfrom'' of
        Inl err \<Rightarrow> Inl (reopen_err err) | Inr tf \<Rightarrow>
     (case NewInvertedIndex ops (dir a) (tmpdir a) (aggregationStep a) ''tracesto'' of
        Inl err \<Rightarrow> Inl (reopen_err err) | Inr tt \<Rightarrow>
          Inr (recalcMaxTxNum ops
                 (a\<lparr>accounts := acc, storage := sto, code := cod, logAddrs := la,
                    logTopics := lt, tracesFrom := tf, tracesTo := tt\<rparr>)))))))))"

text \<open>The cross-component frontier in the spec's words: the minimum of
  \<open>endTxNumMinimax()\<close> over the seven components.\<close>

definition spec_min_endTxNumMinimax ::
  "('h, 'i, 'db, 'c, 'f, 's) components \<Rightarrow> ('h, 'i) AggregatorV3 \<Rightarrow> uint64" where
  "spec_min_endTxNumMinimax ops a =
     Min {h_endTxNumMinimax ops (accounts a), h_endTxNumMinimax ops (storage a),
          h_endTxNumMinimax ops (code a), i_endTxNumMinimax ops (logAddrs a),
          i_endTxNumMinimax ops (logTopics a), i_endTxNumMinimax ops (tracesFrom a),
          i_endTxNumMinimax ops (tracesTo a)}"

text \<open>One stage of \<open>buildFiles\<close>: the effect is logged, an error ends the
  sequence, a result goes on to the rest.\<close>

definition stage ::
  "effect \<Rightarrow> error + 'x \<Rightarrow> ('x \<Rightarrow> effect list \<times> (error + 'y)) \<Rightarrow> effect list \<times> (error + 'y)" where
  "stage ev r rest =
     (case r of
        Inl err \<Rightarrow> ([ev], Inl err)
      | Inr x \<Rightarrow> (case rest x of (evs, r') \<Rightarrow> (ev # evs, r')))"

definition buildFiles ::
  "('h, 'i, 'db, 'c, 'f, 's) components \<Rightarrow> ('h, 'i) AggregatorV3 \<Rightarrow> uint64 \<Rightarrow> uint64 \<Rightarrow> uint64
   \<Rightarrow> 'db \<Rightarrow> effect list \<times> (error + 'f Agg22StaticFiles)" where
  "buildFiles ops a step txFrom txTo db =
     stage (Collated ''accounts'' step) (h_collate ops (accounts a) step txFrom txTo db) (\<lambda>c1.
     stage (Built ''accounts'' step) (h_buildFiles ops (accounts a) step c1) (\<lambda>f1.
     stage (Collated ''storage'' step) (h_collate ops (storage a) step txFrom txTo db) (\<lambda>c2.
     stage (Built ''storage'' step) (h_buildFiles ops (storage a) step c2) (\<lambda>f2.
     stage (Collated ''code'' step) (h_collate ops (code a) step txFrom txTo db) (\<lambda>c3.
     stage (Built ''code'' step) (h_buildFiles ops (code a) step c3) (\<lambda>f3.
     stage (Collated ''logaddrs'' step) (i_collate ops (logAddrs a) txFrom txTo db) (\<lambda>c4.
     stage (Built ''logaddrs'' step) (i_buildFiles ops (logAddrs a) step c4) (\<lambda>f4.
     stage (Collated ''logtopics'' step) (i_collate ops (logTopics a) txFrom txTo db) (\<lambda>c5.
     stage (Built ''logtopics'' step) (i_buildFiles ops (logTopics a) step c5) (\<lambda>f5.
     stage (Collated ''tracesfrom'' step) (i_collate ops (tracesFrom a) txFrom txTo db) (\<lambda>c6.
     stage (Built ''tracesfrom'' step) (i_buildFiles ops (tracesFrom a) step c6) (\<lambda>f6.
     stage (Collated ''tracesto'' step) (i_collate ops (tracesTo a) txFrom txTo db) (\<lambda>c7.
     stage (Built ''tracesto'' step) (i_buildFiles ops (tracesTo a) step c7) (\<lambda>f7.
       ([], Inr \<lparr>sf_accounts = f1, sf_storage = f2, sf_code = f3, sf_logAddrs = f4,
                 sf_logTopics = f5, sf_tracesFrom = f6, sf_tracesTo = f7\<rparr>)))))))))))))))"

definition buildFilesInBackground ::
  "('h, 'i, 'db, 'c, 'f, 's) components \<Rightarrow> ('h, 'i) AggregatorV3 \<Rightarrow> uint64 \<Rightarrow> 'db
   \<Rightarrow> ('h, 'i) AggregatorV3 \<times> error option" where
  "buildFilesInBackground ops a step db =
     (case buildFiles ops a step (step * aggregationStep a) ((step + 1) * aggregationStep a) db of
        (evs, Inl err) \<Rightarrow> (a\<lparr>effects := effects a @ evs\<rparr>, Some err)
      | (evs, Inr sf) \<Rightarrow>
          (integrateFiles ops (a\<lparr>effects := effects a @ evs\<rparr>) sf
             (step * aggregationStep a) ((step + 1) * aggregationStep a), None))"

text \<open>\<open>lastIdInDB\<close>: zero when the view fails or the table is empty; \<open>None\<close> is
  the panic of \<open>Uint64\<close> on a key shorter than 8 bytes.\<close>

definition lastIdInDB ::
  "('h, 'i, 'db, 'c, 'f, 's) components \<Rightarrow> 'db \<Rightarrow> string \<Rightarrow> uint64 option" where
  "lastIdInDB ops db table =
     (case LastKey ops db table of
        Inl err \<Rightarrow> Some 0
      | Inr lst \<Rightarrow> if length lst > 0 then Uint64 lst else Some 0)"

text \<open>The loop shared by \<open>BuildFiles\<close> and the goroutine of
  \<open>BuildFilesInBackground\<close>: while \<open>step\<close> is below the last step in the database,
  build it; an error is logged and ends the loop. The database is the same at every
  turn.\<close>

function build_steps ::
  "('h, 'i, 'db, 'c, 'f, 's) components \<Rightarrow> 'db \<Rightarrow> ('h, 'i) AggregatorV3 \<Rightarrow> uint64
   \<Rightarrow> failure + ('h, 'i) AggregatorV3" where
  "build_steps ops db a step =
     (case lastIdInDB ops db (indexKeysTable ops (accounts a)) of
        None \<Rightarrow> Inl Panic
      | Some lst \<Rightarrow>
          if aggregationStep a = 0 then Inl Panic
          else if step < lst div aggregationStep a
          then (case buildFilesInBackground ops a step db of
                  (a', Some err) \<Rightarrow> Inr a'
                | (a', None) \<Rightarrow> build_steps ops db a' (step + 1))
          else Inr a)"
  by pat_completeness auto

termination build_steps
proof (relation "measure (\<lambda>(ops, db, a, step). 2 ^ 64 - unat step)")
  show "wf (measure (\<lambda>(ops :: ('a, 'b, 'c, 'd, 'e, 'f) components, db :: 'c,
      a :: ('a, 'b) AggregatorV3, step :: uint64). 2 ^ 64 - unat step))"
    by simp
next
  fix ops :: "('a, 'b, 'c, 'd, 'e, 'f) components" and db :: 'c
    and a a' :: "('a, 'b) AggregatorV3" and step lst :: uint64
  assume "step < lst div aggregationStep a"
  then have "unat step < unat (lst div aggregationStep a)"
    by (simp add: word_less_nat_alt)
  moreover have "unat (lst div aggregationStep a) < 2 ^ 64"
    using unsigned_less [of "lst div aggregationStep a"] by simp
  ultimately have "unat step + unat (1 :: uint64) < 2 ^ LENGTH(64)"
    by simp
  then have "unat (step + 1) = unat step + unat (1 :: uint64)"
    by (simp only: unat_add_lem [THEN iffD1])
  moreover have "unat (step + 1) < 2 ^ 64"
    using unsigned_less [of "step + 1"] by simp
  ultimately show "((ops, db, a', step + 1), ops, db, a, step)
      \<in> measure (\<lambda>(ops, db, a, step). 2 ^ 64 - unat step)"
    by simp
qed

text \<open>\<open>BuildFiles\<close> always returns a nil error: \<open>Inr\<close> is the aggregator it
  leaves behind, \<open>Inl Panic\<close> a division by a zero step.\<close>

definition BuildFiles ::
  "('h, 'i, 'db, 'c, 'f, 's) components \<Rightarrow> ('h, 'i) AggregatorV3 \<Rightarrow> 'db
   \<Rightarrow> failure + ('h, 'i) AggregatorV3" where
  "BuildFiles ops a db =
     (if a_txNum a + 1 \<le> maxTxNum a + aggregationStep a + keepInDB a then Inr a
      else if aggregationStep a = 0 then Inl Panic
      else build_steps ops db a (EndTxNumMinimax a div aggregationStep a))"

text \<open>
  \<open>BuildFilesInBackground\<close> returns nil at once; when it passes the threshold and no
  build is in flight it sets \<open>working\<close> and starts a goroutine, given here as the
  \<open>(step, toTxNum)\<close> the goroutine captures. \<open>background_build\<close> is that goroutine
  run to its end, up to the start of the merge goroutine (the Boolean).
\<close>

definition BuildFilesInBackground ::
  "('h, 'i, 'db, 'c, 'f, 's) components \<Rightarrow> ('h, 'i) AggregatorV3 \<Rightarrow> 'db
   \<Rightarrow> failure + ('h, 'i) AggregatorV3 \<times> (uint64 \<times> uint64) option" where
  "BuildFilesInBackground ops a db =
     (if a_txNum a + 1 \<le> maxTxNum a + aggregationStep a + keepInDB a then Inr (a, None)
      else if aggregationStep a = 0 then Inl Panic
      else
        let step = maxTxNum a div aggregationStep a in
        if working a then Inr (a, None)
        else
          let toTxNum = (step + 1) * aggregationStep a
          in Inr (a\<lparr>working := True\<rparr>, Some (step, toTxNum)))"

definition background_build ::
  "('h, 'i, 'db, 'c, 'f, 's) components \<Rightarrow> 'db \<Rightarrow> ('h, 'i) AggregatorV3 \<Rightarrow> uint64 \<Rightarrow> uint64
   \<Rightarrow> failure + ('h, 'i) AggregatorV3 \<times> bool" where
  "background_build ops db a step toTxNum =
     (case lastIdInDB ops db (indexKeysTable ops (accounts a)) of
        None \<Rightarrow> Inl Panic
      | Some lastInDB \<Rightarrow>
          if \<not> lastInDB \<ge> toTxNum then Inr (a\<lparr>working := False\<rparr>, False)
          else
            (case build_steps ops db a step of
               Inl f \<Rightarrow> Inl f
             | Inr a' \<Rightarrow>
                 if workingMerge a' then Inr (a'\<lparr>working := False\<rparr>, False)
                 else Inr (a'\<lparr>workingMerge := True, working := False\<rparr>, True)))"

text \<open>
  \<open>MakeSteps\<close>. When not all files are indexed the warning it logs divides by the
  aggregation step, which panics for a zero step. The error carries the three counts.
\<close>

record ('h, 'i, 's) AggregatorStep =
  step_a :: "('h, 'i) AggregatorV3"
  step_accounts :: 's
  step_storage :: 's
  step_code :: 's
  keyBuf :: "byte list"

definition MakeSteps ::
  "('h, 'i, 'db, 'c, 'f, 's) components \<Rightarrow> ('h, 'i) AggregatorV3
   \<Rightarrow> failure + ('h, 'i, 's) AggregatorStep list" where
  "MakeSteps ops a =
     (let to0 = maxTxNum a;
          indexedMax = min (min (h_endIndexedTxNumMinimax ops (accounts a))
                                (h_endIndexedTxNumMinimax ops (storage a)))
                           (h_endIndexedTxNumMinimax ops (code a))
      in
        if to0 \<noteq> indexedMax \<and> aggregationStep a = 0 then Inl Panic
        else
          let to = (if to0 \<noteq> indexedMax then min to0 indexedMax else to0);
              accountSteps = h_MakeSteps ops (accounts a) to;
              codeSteps = h_MakeSteps ops (code a) to;
              storageSteps = h_MakeSteps ops (storage a) to
          in
            if length accountSteps \<noteq> length storageSteps \<or>
               length storageSteps \<noteq> length codeSteps
            then Inl (Err (Errorf
                   ''different limit of steps (try merge snapshots): accountSteps=%d, storageSteps=%d, codeSteps=%d''
                   [length accountSteps, length storageSteps, length codeSteps]))
            else Inr (map (\<lambda>i. \<lparr>step_a = a, step_accounts = accountSteps ! i,
                                  step_storage = storageSteps ! i, step_code = codeSteps ! i,
                                  keyBuf = []\<rparr>)
                          [0 ..< length accountSteps]))"

text \<open>The transaction number up to which \<open>MakeSteps\<close> asks each history for its
  steps: the aggregator's frontier, lowered to the indexed frontier.\<close>

definition steps_frontier ::
  "('h, 'i, 'db, 'c, 'f, 's) components \<Rightarrow> ('h, 'i) AggregatorV3 \<Rightarrow> uint64" where
  "steps_frontier ops a =
     min (maxTxNum a)
       (min (min (h_endIndexedTxNumMinimax ops (accounts a))
                 (h_endIndexedTxNumMinimax ops (storage a)))
            (h_endIndexedTxNumMinimax ops (code a)))"

section \<open>Sample collaborators and states\<close>

text \<open>A small instance of the collaborators: a hash that is empty, a decoder that
  leaves the update as it is, a trie without state, and a domain that holds an 8-byte
  entry under step 0, an 18-byte record of zeros under step 2 and nothing elsewhere.\<close>

definition sample_externals :: "(unit, unit, unit) externals" where
  "sample_externals =
     \<lparr>CODE_UPDATE = 1, DELETE_UPDATE = 2, BALANCE_UPDATE = 4, NONCE_UPDATE = 8,
      STORAGE_UPDATE = 16,
      DecodeForStorage = (\<lambda>u enc. Some u),
      keccak = (\<lambda>k. []),
      RootHash = (\<lambda>t. (t, [], None)),
      Reset = (\<lambda>t. t),
      SetTrace = (\<lambda>t b. t),
      ReviewKeys = (\<lambda>t pk hk. (t, [], None, None)),
      ProcessUpdates = (\<lambda>t pk hk us. (t, [], None, None)),
      SetState = (\<lambda>t s. (t, None)),
      SetTxNum = (\<lambda>d n. d),
      Get = (\<lambda>d k1 k2.
               if k2 = [0, 0] then Inr (exact [0, 0, 0, 0, 0, 0, 0, 1])
               else if k2 = [0, 2] then Inr (exact (replicate 18 0))
               else Inr (exact []))\<rparr>"

definition sample_item :: CommitmentItem where
  "sample_item = \<lparr>plainKey = replicate 20 0, hashedKey = replicate 64 0,
                   update = zeroUpdate\<lparr>Flags := 1\<rparr>\<rparr>"

definition sample_domain :: "(unit, unit) DomainCommitted" where
  "sample_domain = \<lparr>domain = (), mode = CommitmentModeUpdate, trace = False,
                     commTree = [sample_item], patriciaTrie = ()\<rparr>"

text \<open>Components that are their own end transaction number; a history of end \<open>e\<close>
  has \<open>e div 4\<close> steps.\<close>

definition sample_components :: "(uint64, uint64, unit, unit, unit, nat) components" where
  "sample_components =
     \<lparr>NewHistory = (\<lambda>d t s name cv. Inr 8),
      NewInvertedIndex = (\<lambda>d t s name. Inr 4),
      h_endTxNumMinimax = (\<lambda>h. h),
      i_endTxNumMinimax = (\<lambda>i. i),
      h_endIndexedTxNumMinimax = (\<lambda>h. h),
      h_MakeSteps = (\<lambda>h to. [0 ..< unat (h div 4)]),
      h_collate = (\<lambda>h step txFrom txTo db. Inr ()),
      h_buildFiles = (\<lambda>h step c. Inr ()),
      i_collate = (\<lambda>i txFrom txTo db. Inr ()),
      i_buildFiles = (\<lambda>i step c. Inr ()),
      h_integrateFiles = (\<lambda>h f txFrom txTo. txTo),
      i_integrateFiles = (\<lambda>i f txFrom txTo. txTo),
      indexKeysTable = (\<lambda>h. ''AccountHistoryKeys''),
      LastKey = (\<lambda>db table. Inr [])\<rparr>"

definition sample_aggregator :: "(uint64, uint64) AggregatorV3" where
  "sample_aggregator =
     \<lparr>accounts = 8, storage = 8, code = 8, logAddrs = 4, logTopics = 4, tracesFrom = 4,
      tracesTo = 4, dir = ''snapshots'', tmpdir = ''tmp'', a_txNum = 5, aggregationStep = 4,
      keepInDB = 8, maxTxNum = 4, working = False, workingMerge = False, effects = []\<rparr>"

section \<open>Big-endian bytes\<close>

lemma byte_at:
  "bit (push_bit k (ucast (ucast (drop_bit k (v :: uint64)) :: byte) :: uint64)) n
     \<longleftrightarrow> k \<le> n \<and> n < k + 8 \<and> bit v n"
  by (auto simp add: bit_simps dest: bit_imp_le_length)

lemma byte_at0:
  "bit (ucast (ucast (v :: uint64) :: byte) :: uint64) n \<longleftrightarrow> n < 8 \<and> bit v n"
  using byte_at [of 0 v n] by simp

lemma or_bytes:
  fixes v :: uint64
  shows "ucast (ucast v :: byte) OR push_bit 8 (ucast (ucast (drop_bit 8 v) :: byte)) OR
         push_bit 16 (ucast (ucast (drop_bit 16 v) :: byte)) OR
         push_bit 24 (ucast (ucast (drop_bit 24 v) :: byte)) OR
         push_bit 32 (ucast (ucast (drop_bit 32 v) :: byte)) OR
         push_bit 40 (ucast (ucast (drop_bit 40 v) :: byte)) OR
         push_bit 48 (ucast (ucast (drop_bit 48 v) :: byte)) OR
         push_bit 56 (ucast (ucast (drop_bit 56 v) :: byte)) = v" (is "?lhs = v")
proof (rule bit_eqI)
  fix n :: nat
  assume "possible_bit TYPE(uint64) n"
  then have "n < 64"
    by (simp add: possible_bit_def)
  then consider "n < 8" | "8 \<le> n \<and> n < 16" | "16 \<le> n \<and> n < 24" | "24 \<le> n \<and> n < 32"
    | "32 \<le> n \<and> n < 40" | "40 \<le> n \<and> n < 48" | "48 \<le> n \<and> n < 56" | "56 \<le> n \<and> n < 64"
    by arith
  then show "bit ?lhs n = bit v n"
    by cases (simp_all add: bit_or_iff byte_at byte_at0)
qed

lemma Uint64_PutUint64: "Uint64 (PutUint64 v) = Some v"
  using or_bytes [of v] by (simp add: Uint64_def PutUint64_def)

lemma Uint16_PutUint16: "Uint16 (PutUint16 v) = Some v"
  unfolding Uint16_def PutUint16_def
  apply simp
  apply (rule bit_eqI)
  apply (simp add: bit_simps)
  apply auto
  done

lemma length_PutUint64: "length (PutUint64 v) = 8"
  by (simp add: PutUint64_def)

lemma length_PutUint16: "length (PutUint16 v) = 2"
  by (simp add: PutUint16_def)

lemma byte_of_drop_bit:
  "(ucast (drop_bit k (v :: 'a::len word)) :: byte) = of_nat (unat v div 2 ^ k mod 256)"
proof -
  have "(ucast (drop_bit k v) :: byte) = of_nat (unat (drop_bit k v))"
    by simp
  also have "unat (drop_bit k v) = unat v div 2 ^ k"
    using unat_drop_bit_eq [of k v] by (simp add: drop_bit_eq_div)
  also have "(of_nat (unat v div 2 ^ k) :: byte) = of_nat (unat v div 2 ^ k mod 256)"
    by (simp add: word_eq_iff_unsigned [where ?'a = nat] unsigned_of_nat take_bit_eq_mod)
  finally show ?thesis .
qed

lemma upt8: "[0..<8] = [0, 1, 2, 3, 4, 5, 6, 7 :: nat]"
  by code_simp

lemma upt2: "[0..<2] = [0, 1 :: nat]"
  by code_simp

lemma PutUint64_spec: "PutUint64 v = spec_big_endian 8 (unat v)"
  using byte_of_drop_bit [of 0 v]
  by (simp add: PutUint64_def spec_big_endian_def upt8 byte_of_drop_bit)

lemma PutUint16_spec: "PutUint16 v = spec_big_endian 2 (unat v)"
  using byte_of_drop_bit [of 0 v]
  by (simp add: PutUint16_def spec_big_endian_def upt2 byte_of_drop_bit)

section \<open>Short keys\<close>

text \<open>
  C1 (short-key round trip). The claim asks that \<open>shortenedKey\<close> gives back \<open>(s, o)\<close>
  from the key made of the two bytes of the step \<open>s\<close> and the shortest big-endian
  form of the offset \<open>o\<close>. The code decodes the offset from \<open>apk[1:]\<close>, which still
  holds the low byte of the step: for step 1 and offset 0 the key is \<open>00 01 00\<close> and
  the offset read back is 256, not 0.
\<close>

theorem shortenedKey_step1_offset0:
  "shortKeyOf 1 0 = [0, 1, 0] \<and> shortenedKey (exact (shortKeyOf 1 0)) = Some (1, 256)"
  by (simp add: shortenedKey_def exact_def shortKeyOf_def encodeU64_def store_at_def
      PutUint16_def slice_expr_def cap_def len_def Uint16_def decodeU64_def)

section \<open>The commitment state record: encoding and decoding\<close>

lemma Encode_concat:
  "Encode cs = Inr (PutUint64 (txNum cs) @ PutUint64 (blockNum cs) @
     PutUint16 (of_nat (length (trieState cs))) @ trieState cs)"
  by (simp add: Encode_def store_at_def Let_def length_PutUint64 length_PutUint16)

lemma Decode_concat:
  assumes "length ts = unat n"
  shows "Decode \<lparr>elems = PutUint64 a @ PutUint64 b @ PutUint16 n @ ts, spare = sp\<rparr>
     = Inr \<lparr>txNum = a, blockNum = b, trieState = ts\<rparr>"
  using assms
  by (simp add: Decode_def len_def cap_def slice_expr_def Uint64_PutUint64 Uint16_PutUint16
      copy_def Let_def length_PutUint64 length_PutUint16)

text \<open>
  C2 (commitment state record round trip). For a trie state shorter than \<open>2^16\<close>
  bytes, \<open>Encode\<close> returns the transaction number in 8 big-endian bytes, the block
  number in 8 big-endian bytes, the length of the trie state in 2 big-endian bytes and
  the trie state; \<open>Decode\<close> of these bytes, whatever the capacity of the slice that
  holds them, gives back the same transaction number, block number and trie state.
\<close>

theorem Encode_layout_Decode_roundtrip:
  assumes "length (trieState cs) < 2 ^ 16"
  shows "\<exists>enc. Encode cs = Inr enc \<and>
     enc = spec_big_endian 8 (unat (txNum cs)) @ spec_big_endian 8 (unat (blockNum cs)) @
           spec_big_endian 2 (length (trieState cs)) @ trieState cs \<and>
     (\<forall>sp. Decode \<lparr>elems = enc, spare = sp\<rparr> = Inr cs)"
proof -
  let ?n = "of_nat (length (trieState cs)) :: uint16"
  have n: "unat ?n = length (trieState cs)"
    using assms by (simp add: unat_of_nat)
  have "\<lparr>txNum = txNum cs, blockNum = blockNum cs, trieState = trieState cs\<rparr> = cs"
    by simp
  then have "Decode \<lparr>elems = PutUint64 (txNum cs) @ PutUint64 (blockNum cs) @
      PutUint16 ?n @ trieState cs, spare = sp\<rparr> = Inr cs" for sp
    using Decode_concat [of "trieState cs" ?n "txNum cs" "blockNum cs" sp] n by simp
  then show ?thesis
    using n by (simp add: Encode_concat PutUint64_spec PutUint16_spec)
qed

theorem Encode_layout_Decode_roundtrip_witness:
  "length (trieState \<lparr>txNum = 258, blockNum = 3, trieState = [9, 8, 7]\<rparr>) < 2 ^ 16 \<and>
   (\<exists>enc. Encode \<lparr>txNum = 258, blockNum = 3, trieState = [9, 8, 7]\<rparr> = Inr enc \<and>
      enc = [0, 0, 0, 0, 0, 0, 1, 2, 0, 0, 0, 0, 0, 0, 0, 3, 0, 3, 9, 8, 7] \<and>
      Decode (exact enc) = Inr \<lparr>txNum = 258, blockNum = 3, trieState = [9, 8, 7]\<rparr>)"
proof -
  let ?cs = "\<lparr>txNum = 258, blockNum = 3, trieState = [9, 8, 7]\<rparr>"
  have h: "length (trieState ?cs) < 2 ^ 16"
    by simp
  have e: "Encode ?cs = Inr [0, 0, 0, 0, 0, 0, 1, 2, 0, 0, 0, 0, 0, 0, 0, 3, 0, 3, 9, 8, 7]"
    by (simp add: Encode_def store_at_def PutUint64_def PutUint16_def)
  from Encode_layout_Decode_roundtrip [OF h] e show ?thesis
    using h by (auto simp add: exact_def)
qed

text \<open>
  C10 (bounds safety of \<open>Decode\<close>). The claim asks that every buffer shorter than the
  18-byte header, and every buffer whose length field exceeds the bytes that follow
  the header, be rejected with an error. The code only rejects buffers shorter than 10
  bytes: a 10-byte buffer with no spare capacity passes the check and panics in
  \<open>buf[8:16]\<close>, and an 18-byte buffer announcing one byte of trie state panics in
  \<open>buf[18:19]\<close>; with spare capacity behind a 10-byte buffer, \<open>Decode\<close> succeeds on
  bytes that lie beyond the buffer's length.
\<close>

theorem Decode_short_buffer_panics:
  "Decode (exact [0, 0, 0, 0, 0, 0, 0, 0, 0, 0]) = Inl Panic \<and>
   Decode (exact [0, 0, 0, 0, 0, 0, 0, 0, 0, 0, 0, 0, 0, 0, 0, 0, 0, 1]) = Inl Panic \<and>
   Decode \<lparr>elems = [0, 0, 0, 0, 0, 0, 0, 0, 0, 0], spare = [0, 0, 0, 0, 0, 7, 0, 0]\<rparr>
     = Inr \<lparr>txNum = 0, blockNum = 7, trieState = []\<rparr>"
  by (simp add: Decode_def exact_def len_def cap_def slice_expr_def Uint64_def Uint16_def
      copy_def)

section \<open>The touch accumulator\<close>

text \<open>
  C4 (the accumulator is drained). \<open>TouchedKeyList\<close> leaves \<open>commTree\<close> empty, and
  so does \<open>ComputeCommitment\<close>, for every mode value, every set of touches and every
  outcome of the trie calls, error or not.
\<close>

theorem ComputeCommitment_clears_commTree:
  "commTree (snd (TouchedKeyList d)) = [] \<and>
   commTree (fst (ComputeCommitment ext d trc)) = []"
  by (simp add: ComputeCommitment_def TouchedKeyList_def Let_def split: prod.splits)

lemma treeGet_ReplaceOrInsert:
  "hashedKey p = hashedKey c \<Longrightarrow> treeGet (ReplaceOrInsert t c) p = Some c"
  by (induction t) (auto simp add: treeGet_def commitmentItemLess_def)

lemma copy_same_length: "length dst = length src \<Longrightarrow> copy dst src = src"
  by (simp add: copy_def)

text \<open>
  C5 (an account touch merged with an earlier code touch). In Update mode, for a key
  whose hashed key \<open>hk\<close> already has an entry \<open>item\<close> with the \<open>CODE_UPDATE\<close> bit, a
  touch of the account with a non-empty value that \<open>DecodeForStorage\<close> accepts leaves
  under \<open>hk\<close> an entry whose flags contain \<open>BALANCE_UPDATE\<close>, \<open>NONCE_UPDATE\<close> and
  \<open>CODE_UPDATE\<close> and whose code hash is that of \<open>item\<close>. The two length
  hypotheses say that \<open>CodeHashOrStorage\<close> is an array of \<open>length.Hash\<close> bytes.
\<close>

theorem TouchPlainKeyAccount_keeps_code:
  assumes "mode d = CommitmentModeUpdate"
    and "val \<noteq> []"
    and "hashAndNibblizeKey ext key = Some hk"
    and "treeGet (commTree d) \<lparr>plainKey = [], hashedKey = hk, update = zeroUpdate\<rparr> = Some item"
    and "Flags (update item) AND CODE_UPDATE ext \<noteq> 0"
    and "DecodeForStorage ext zeroUpdate val = Some u"
    and "length (CodeHashOrStorage u) = Hash"
    and "length (CodeHashOrStorage (update item)) = Hash"
  shows "\<exists>d' e. TouchPlainKey ext d key val (TouchPlainKeyAccount ext) = Some d' \<and>
     treeGet (commTree d') \<lparr>plainKey = [], hashedKey = hk, update = zeroUpdate\<rparr> = Some e \<and>
     Flags (update e) AND BALANCE_UPDATE ext = BALANCE_UPDATE ext \<and>
     Flags (update e) AND NONCE_UPDATE ext = NONCE_UPDATE ext \<and>
     Flags (update e) AND CODE_UPDATE ext = CODE_UPDATE ext \<and>
     CodeHashOrStorage (update e) = CodeHashOrStorage (update item)"
proof -
  let ?c = "\<lparr>plainKey = key, hashedKey = hk, update = zeroUpdate\<rparr>"
  let ?u = "u\<lparr>Flags := (BALANCE_UPDATE ext OR NONCE_UPDATE ext) OR CODE_UPDATE ext,
              CodeHashOrStorage := CodeHashOrStorage (update item)\<rparr>"
  let ?e = "?c\<lparr>update := ?u\<rparr>"
  have acc: "TouchPlainKeyAccount ext d ?c val = Some ?e"
    using assms by (simp add: TouchPlainKeyAccount_def copy_same_length)
  have touch: "TouchPlainKey ext d key val (TouchPlainKeyAccount ext)
      = Some (d\<lparr>commTree := ReplaceOrInsert (commTree d) ?e\<rparr>)"
    using assms(1,3) acc
    by (simp add: TouchPlainKey_def CommitmentModeUpdate_def CommitmentModeDirect_def
        CommitmentModeDisabled_def)
  have get: "treeGet (ReplaceOrInsert (commTree d) ?e)
      \<lparr>plainKey = [], hashedKey = hk, update = zeroUpdate\<rparr> = Some ?e"
    by (rule treeGet_ReplaceOrInsert) simp
  have b: "((BALANCE_UPDATE ext OR NONCE_UPDATE ext) OR CODE_UPDATE ext) AND BALANCE_UPDATE ext
      = BALANCE_UPDATE ext"
    by (auto simp add: bit_eq_iff bit_simps)
  have n: "((BALANCE_UPDATE ext OR NONCE_UPDATE ext) OR CODE_UPDATE ext) AND NONCE_UPDATE ext
      = NONCE_UPDATE ext"
    by (auto simp add: bit_eq_iff bit_simps)
  have c: "((BALANCE_UPDATE ext OR NONCE_UPDATE ext) OR CODE_UPDATE ext) AND CODE_UPDATE ext
      = CODE_UPDATE ext"
    by (auto simp add: bit_eq_iff bit_simps)
  show ?thesis
    using touch get b n c by simp
qed

theorem TouchPlainKeyAccount_keeps_code_witness:
  "mode sample_domain = CommitmentModeUpdate \<and> [1 :: byte] \<noteq> [] \<and>
   hashAndNibblizeKey sample_externals (replicate 20 0) = Some (replicate 64 0) \<and>
   treeGet (commTree sample_domain)
     \<lparr>plainKey = [], hashedKey = replicate 64 0, update = zeroUpdate\<rparr> = Some sample_item \<and>
   Flags (update sample_item) AND CODE_UPDATE sample_externals \<noteq> 0 \<and>
   DecodeForStorage sample_externals zeroUpdate [1] = Some zeroUpdate \<and>
   (\<exists>d' e. TouchPlainKey sample_externals sample_domain (replicate 20 0) [1]
              (TouchPlainKeyAccount sample_externals) = Some d' \<and>
     treeGet (commTree d')
       \<lparr>plainKey = [], hashedKey = replicate 64 0, update = zeroUpdate\<rparr> = Some e \<and>
     Flags (update e) AND BALANCE_UPDATE sample_externals = BALANCE_UPDATE sample_externals \<and>
     Flags (update e) AND NONCE_UPDATE sample_externals = NONCE_UPDATE sample_externals \<and>
     Flags (update e) AND CODE_UPDATE sample_externals = CODE_UPDATE sample_externals \<and>
     CodeHashOrStorage (update e) = CodeHashOrStorage (update sample_item))"
proof -
  have h1: "mode sample_domain = CommitmentModeUpdate"
    by (simp add: sample_domain_def)
  have h2: "[1 :: byte] \<noteq> []"
    by simp
  have h3: "hashAndNibblizeKey sample_externals (replicate 20 0) = Some (replicate 64 0)"
    by code_simp
  have h4: "treeGet (commTree sample_domain)
     \<lparr>plainKey = [], hashedKey = replicate 64 0, update = zeroUpdate\<rparr> = Some sample_item"
    by (simp add: sample_domain_def treeGet_def commitmentItemLess_def sample_item_def)
  have h5: "Flags (update sample_item) AND CODE_UPDATE sample_externals \<noteq> 0"
    by (simp add: sample_item_def sample_externals_def)
  have h6: "DecodeForStorage sample_externals zeroUpdate [1] = Some zeroUpdate"
    by (simp add: sample_externals_def)
  have h7: "length (CodeHashOrStorage zeroUpdate) = Hash"
    by (simp add: zeroUpdate_def)
  have h8: "length (CodeHashOrStorage (update sample_item)) = Hash"
    by (simp add: sample_item_def zeroUpdate_def)
  from TouchPlainKeyAccount_keeps_code [OF h1 h2 h3 h4 h5 h6 h7 h8] h1 h2 h3 h4 h5 h6
  show ?thesis
    by simp
qed

section \<open>Seeking the latest commitment state\<close>

text \<open>
  C3 (a failed decode looks like no checkpoint). For a non-zero aggregation step:
  when the search loop ends with a latest state that \<open>Decode\<close> rejects with an
  error, \<open>SeekCommitment\<close> returns \<open>(0, nil)\<close>; this covers the case where the first
  lookup finds nothing and the state buffer is empty; and a state that decodes, with
  transaction number 0 and a trie state the trie accepts, gives the same \<open>(0, nil)\<close>.
\<close>

theorem SeekCommitment_decode_error_is_zero_nil:
  assumes "aggStep \<noteq> 0"
  shows
   "(seek_loop ext aggStep (SetTxNum ext (domain d) (sinceTx - 1))
        (ucast (sinceTx div aggStep) - 1) (sinceTx - 1) (exact []) = Some (dm, Inr latestState)
      \<and> Decode latestState = Inl (Err e)
      \<longrightarrow> SeekCommitment ext d aggStep sinceTx = Some (Inr (d\<lparr>domain := dm\<rparr>, 0)))
    \<and> (Get ext (SetTxNum ext (domain d) (sinceTx - 1)) keyCommitmentState
          (PutUint16 (ucast (sinceTx div aggStep) - 1)) = Inr s \<and> len s < 8
      \<longrightarrow> SeekCommitment ext d aggStep sinceTx
            = Some (Inr (d\<lparr>domain := SetTxNum ext (domain d) (sinceTx - 1)\<rparr>, 0)))
    \<and> (seek_loop ext aggStep (SetTxNum ext (domain d) (sinceTx - 1))
        (ucast (sinceTx div aggStep) - 1) (sinceTx - 1) (exact []) = Some (dm, Inr latestState)
      \<and> Decode latestState = Inr latest \<and> txNum latest = 0
      \<and> SetState ext (patriciaTrie d) (trieState latest) = (t1, None)
      \<longrightarrow> SeekCommitment ext d aggStep sinceTx
            = Some (Inr (d\<lparr>domain := dm, patriciaTrie := t1\<rparr>, 0)))"
proof (intro conjI impI)
  assume "seek_loop ext aggStep (SetTxNum ext (domain d) (sinceTx - 1))
        (ucast (sinceTx div aggStep) - 1) (sinceTx - 1) (exact []) = Some (dm, Inr latestState)
      \<and> Decode latestState = Inl (Err e)"
  then show "SeekCommitment ext d aggStep sinceTx = Some (Inr (d\<lparr>domain := dm\<rparr>, 0))"
    using assms by (simp add: SeekCommitment_def Let_def)
next
  assume "Get ext (SetTxNum ext (domain d) (sinceTx - 1)) keyCommitmentState
          (PutUint16 (ucast (sinceTx div aggStep) - 1)) = Inr s \<and> len s < 8"
  then have loop: "seek_loop ext aggStep (SetTxNum ext (domain d) (sinceTx - 1))
        (ucast (sinceTx div aggStep) - 1) (sinceTx - 1) (exact [])
      = Some (SetTxNum ext (domain d) (sinceTx - 1), Inr (exact []))"
    by (subst seek_loop.simps) simp
  have dec: "Decode (exact []) = Inl (Err (Errorf ''ivalid commitment state buffer size'' []))"
    by (simp add: Decode_def exact_def len_def)
  show "SeekCommitment ext d aggStep sinceTx
            = Some (Inr (d\<lparr>domain := SetTxNum ext (domain d) (sinceTx - 1)\<rparr>, 0))"
    using assms loop dec by (simp add: SeekCommitment_def Let_def)
next
  assume "seek_loop ext aggStep (SetTxNum ext (domain d) (sinceTx - 1))
        (ucast (sinceTx div aggStep) - 1) (sinceTx - 1) (exact []) = Some (dm, Inr latestState)
      \<and> Decode latestState = Inr latest \<and> txNum latest = 0
      \<and> SetState ext (patriciaTrie d) (trieState latest) = (t1, None)"
  then show "SeekCommitment ext d aggStep sinceTx
            = Some (Inr (d\<lparr>domain := dm, patriciaTrie := t1\<rparr>, 0))"
    using assms by (simp add: SeekCommitment_def Let_def)
qed

lemma sample_seek_loop_short_entry:
  "seek_loop sample_externals 4 () 0 3 (exact [])
     = Some ((), Inr (exact [0, 0, 0, 0, 0, 0, 0, 1]))"
  apply (subst seek_loop.simps)
  apply (simp add: sample_externals_def PutUint16_def keyCommitmentState_def exact_def len_def
      Uint64_def)
  apply (subst seek_loop.simps)
  apply (simp add: sample_externals_def PutUint16_def keyCommitmentState_def exact_def len_def
      Uint64_def)
  done

lemma sample_seek_loop_zero_record:
  "seek_loop sample_externals 4 () 2 11 (exact []) = Some ((), Inr (exact (replicate 18 0)))"
  apply (subst seek_loop.simps)
  apply (simp add: sample_externals_def PutUint16_def keyCommitmentState_def exact_def len_def
      Uint64_def)
  apply (subst seek_loop.simps)
  apply (simp add: sample_externals_def PutUint16_def keyCommitmentState_def exact_def len_def
      Uint64_def)
  done

theorem SeekCommitment_decode_error_is_zero_nil_witness:
  "(4 :: uint64) \<noteq> 0 \<and>
   seek_loop sample_externals 4 (SetTxNum sample_externals (domain sample_domain) (4 - 1))
     (ucast ((4 :: uint64) div 4) - 1) (4 - 1) (exact [])
     = Some ((), Inr (exact [0, 0, 0, 0, 0, 0, 0, 1])) \<and>
   Decode (exact [0, 0, 0, 0, 0, 0, 0, 1])
     = Inl (Err (Errorf ''ivalid commitment state buffer size'' [])) \<and>
   SeekCommitment sample_externals sample_domain 4 4 = Some (Inr (sample_domain, 0)) \<and>
   Get sample_externals (SetTxNum sample_externals (domain sample_domain) (8 - 1))
     keyCommitmentState (PutUint16 (ucast ((8 :: uint64) div 4) - 1)) = Inr (exact []) \<and>
   len (exact []) < 8 \<and>
   SeekCommitment sample_externals sample_domain 4 8 = Some (Inr (sample_domain, 0)) \<and>
   seek_loop sample_externals 4 (SetTxNum sample_externals (domain sample_domain) (12 - 1))
     (ucast ((12 :: uint64) div 4) - 1) (12 - 1) (exact [])
     = Some ((), Inr (exact (replicate 18 0))) \<and>
   Decode (exact (replicate 18 0)) = Inr \<lparr>txNum = 0, blockNum = 0, trieState = []\<rparr> \<and>
   SetState sample_externals (patriciaTrie sample_domain) [] = ((), None) \<and>
   SeekCommitment sample_externals sample_domain 4 12 = Some (Inr (sample_domain, 0))"
proof -
  have a0: "(4 :: uint64) \<noteq> 0"
    by simp
  have a1: "seek_loop sample_externals 4 (SetTxNum sample_externals (domain sample_domain) (4 - 1))
     (ucast ((4 :: uint64) div 4) - 1) (4 - 1) (exact [])
     = Some ((), Inr (exact [0, 0, 0, 0, 0, 0, 0, 1]))"
    using sample_seek_loop_short_entry by simp
  have a2: "Decode (exact [0, 0, 0, 0, 0, 0, 0, 1])
     = Inl (Err (Errorf ''ivalid commitment state buffer size'' []))"
    by (simp add: Decode_def exact_def len_def)
  have b1: "Get sample_externals (SetTxNum sample_externals (domain sample_domain) (8 - 1))
     keyCommitmentState (PutUint16 (ucast ((8 :: uint64) div 4) - 1)) = Inr (exact [])"
    by (simp add: sample_externals_def PutUint16_def)
  have b2: "len (exact []) < 8"
    by (simp add: len_def exact_def)
  have c1: "seek_loop sample_externals 4 (SetTxNum sample_externals (domain sample_domain) (12 - 1))
     (ucast ((12 :: uint64) div 4) - 1) (12 - 1) (exact [])
     = Some ((), Inr (exact (replicate 18 0)))"
    using sample_seek_loop_zero_record by simp
  have c2: "Decode (exact (replicate 18 0)) = Inr \<lparr>txNum = 0, blockNum = 0, trieState = []\<rparr>"
    by code_simp
  have c3: "SetState sample_externals (patriciaTrie sample_domain) [] = ((), None)"
    by (simp add: sample_externals_def)
  have d: "sample_domain\<lparr>domain := ()\<rparr> = sample_domain"
    "sample_domain\<lparr>domain := (), patriciaTrie := ()\<rparr> = sample_domain"
    by (simp_all add: sample_domain_def)
  note t1 = SeekCommitment_decode_error_is_zero_nil [OF a0, of sample_externals sample_domain 4
      "()" "exact [0, 0, 0, 0, 0, 0, 0, 1]" "Errorf ''ivalid commitment state buffer size'' []"]
  note t2 = SeekCommitment_decode_error_is_zero_nil [OF a0, of sample_externals sample_domain 8
      _ _ _ "exact []"]
  note t3 = SeekCommitment_decode_error_is_zero_nil [OF a0, of sample_externals sample_domain 12
      "()" "exact (replicate 18 0)" _ _ "\<lparr>txNum = 0, blockNum = 0, trieState = []\<rparr>" "()"]
  have r1: "SeekCommitment sample_externals sample_domain 4 4 = Some (Inr (sample_domain, 0))"
    using t1 a1 a2 d by simp
  have r2: "SeekCommitment sample_externals sample_domain 4 8 = Some (Inr (sample_domain, 0))"
    using t2 b1 b2 d by simp
  have r3: "SeekCommitment sample_externals sample_domain 4 12 = Some (Inr (sample_domain, 0))"
    using t3 c1 c2 c3 d by simp
  show ?thesis
    using a0 a1 a2 r1 b1 b2 r2 c1 c2 c3 r3 by blast
qed

section \<open>The aggregator\<close>

text \<open>
  C6 (below the build threshold nothing happens). When, in 64-bit arithmetic,
  \<open>txNum + 1 \<le> maxTxNum + aggregationStep + keepInDB\<close>, \<open>BuildFiles\<close> returns nil and
  leaves the aggregator as it was (components, \<open>maxTxNum\<close>, flags and the log of
  collations and builds), and \<open>BuildFilesInBackground\<close> does the same and starts no
  goroutine.
\<close>

theorem build_below_threshold_is_noop:
  assumes "a_txNum a + 1 \<le> maxTxNum a + aggregationStep a + keepInDB a"
  shows "BuildFiles ops a db = Inr a \<and> BuildFilesInBackground ops a db = Inr (a, None)"
  using assms by (simp add: BuildFiles_def BuildFilesInBackground_def)

theorem build_below_threshold_is_noop_witness:
  "a_txNum sample_aggregator + 1
     \<le> maxTxNum sample_aggregator + aggregationStep sample_aggregator + keepInDB sample_aggregator \<and>
   BuildFiles sample_components sample_aggregator () = Inr sample_aggregator \<and>
   BuildFilesInBackground sample_components sample_aggregator () = Inr (sample_aggregator, None)"
proof -
  have h: "a_txNum sample_aggregator + 1
     \<le> maxTxNum sample_aggregator + aggregationStep sample_aggregator + keepInDB sample_aggregator"
    by (simp add: sample_aggregator_def)
  from build_below_threshold_is_noop [OF h, of sample_components "()"] h show ?thesis
    by simp
qed

lemma if_less_min: "(if x < m then x else m) = min m (x :: uint64)"
  by (auto simp add: min_def)

lemma recalcMaxTxNum_eq:
  "recalcMaxTxNum ops a = a\<lparr>maxTxNum := spec_min_endTxNumMinimax ops a\<rparr>"
  by (simp add: recalcMaxTxNum_def spec_min_endTxNumMinimax_def Let_def if_less_min
      min.commute min.left_commute)

lemma spec_min_maxTxNum_update:
  "spec_min_endTxNumMinimax ops (a\<lparr>maxTxNum := m\<rparr>) = spec_min_endTxNumMinimax ops a"
  by (simp add: spec_min_endTxNumMinimax_def)

text \<open>
  C7 (cross-component alignment). \<open>recalcMaxTxNum\<close> changes \<open>maxTxNum\<close> only, and
  sets it to the minimum of \<open>endTxNumMinimax()\<close> over the seven components; so the
  equality holds after \<open>recalcMaxTxNum\<close>, after \<open>integrateFiles\<close>, and after a
  \<open>ReopenFiles\<close> that returns no error.
\<close>

theorem maxTxNum_is_min_of_components:
  "recalcMaxTxNum ops a = a\<lparr>maxTxNum := spec_min_endTxNumMinimax ops a\<rparr> \<and>
   maxTxNum (recalcMaxTxNum ops a) = spec_min_endTxNumMinimax ops (recalcMaxTxNum ops a) \<and>
   maxTxNum (integrateFiles ops a sf txNumFrom txNumTo)
     = spec_min_endTxNumMinimax ops (integrateFiles ops a sf txNumFrom txNumTo) \<and>
   (ReopenFiles ops a = Inr a' \<longrightarrow> maxTxNum a' = spec_min_endTxNumMinimax ops a')"
proof (intro conjI impI)
  show "recalcMaxTxNum ops a = a\<lparr>maxTxNum := spec_min_endTxNumMinimax ops a\<rparr>"
    by (rule recalcMaxTxNum_eq)
  show "maxTxNum (recalcMaxTxNum ops a) = spec_min_endTxNumMinimax ops (recalcMaxTxNum ops a)"
    by (simp add: recalcMaxTxNum_eq spec_min_maxTxNum_update)
  show "maxTxNum (integrateFiles ops a sf txNumFrom txNumTo)
     = spec_min_endTxNumMinimax ops (integrateFiles ops a sf txNumFrom txNumTo)"
    unfolding integrateFiles_def
    by (simp only: recalcMaxTxNum_eq spec_min_maxTxNum_update) simp
next
  assume "ReopenFiles ops a = Inr a'"
  then obtain b where "a' = recalcMaxTxNum ops b"
    by (auto simp add: ReopenFiles_def split: sum.splits)
  then show "maxTxNum a' = spec_min_endTxNumMinimax ops a'"
    by (simp add: recalcMaxTxNum_eq spec_min_maxTxNum_update)
qed

theorem maxTxNum_is_min_of_components_witness:
  "ReopenFiles sample_components sample_aggregator = Inr sample_aggregator \<and>
   maxTxNum sample_aggregator = spec_min_endTxNumMinimax sample_components sample_aggregator \<and>
   maxTxNum sample_aggregator = 4"
proof -
  have h: "ReopenFiles sample_components sample_aggregator = Inr sample_aggregator"
    by (simp add: ReopenFiles_def sample_components_def sample_aggregator_def
        recalcMaxTxNum_def)
  from maxTxNum_is_min_of_components [of sample_components sample_aggregator _ _ _
      sample_aggregator] h
  show ?thesis
    by (simp add: sample_aggregator_def)
qed

lemma MakeSteps_unfold:
  assumes "aggregationStep a \<noteq> 0"
  shows "MakeSteps ops a =
    (let accountSteps = h_MakeSteps ops (accounts a) (steps_frontier ops a);
         codeSteps = h_MakeSteps ops (code a) (steps_frontier ops a);
         storageSteps = h_MakeSteps ops (storage a) (steps_frontier ops a)
     in if length accountSteps \<noteq> length storageSteps \<or>
           length storageSteps \<noteq> length codeSteps
        then Inl (Err (Errorf
               ''different limit of steps (try merge snapshots): accountSteps=%d, storageSteps=%d, codeSteps=%d''
               [length accountSteps, length storageSteps, length codeSteps]))
        else Inr (map (\<lambda>i. \<lparr>step_a = a, step_accounts = accountSteps ! i,
                              step_storage = storageSteps ! i, step_code = codeSteps ! i,
                              keyBuf = []\<rparr>)
                      [0 ..< length accountSteps]))"
proof -
  have "(if maxTxNum a \<noteq> i then min (maxTxNum a) i else maxTxNum a) = min (maxTxNum a) i" for i
    by simp
  then show ?thesis
    using assms by (simp add: MakeSteps_def steps_frontier_def Let_def)
qed

text \<open>
  C8 (\<open>MakeSteps\<close> and misaligned step counts). For a non-zero aggregation step, with
  the steps each of accounts, storage and code makes up to the frontier:
  \<open>MakeSteps\<close> returns an error exactly when the three counts are not all equal, the
  error carries the three counts, and when they are equal it returns one step per
  accounts step, the \<open>i\<close>-th made of the \<open>i\<close>-th accounts, storage and code steps.
\<close>

theorem MakeSteps_error_iff_counts_differ:
  assumes "aggregationStep a \<noteq> 0"
    and "accountSteps = h_MakeSteps ops (accounts a) (steps_frontier ops a)"
    and "storageSteps = h_MakeSteps ops (storage a) (steps_frontier ops a)"
    and "codeSteps = h_MakeSteps ops (code a) (steps_frontier ops a)"
  shows "((\<exists>e. MakeSteps ops a = Inl (Err e)) \<longleftrightarrow>
           \<not> (length accountSteps = length storageSteps \<and> length storageSteps = length codeSteps))
    \<and> (\<not> (length accountSteps = length storageSteps \<and> length storageSteps = length codeSteps)
        \<longrightarrow> MakeSteps ops a = Inl (Err (Errorf
               ''different limit of steps (try merge snapshots): accountSteps=%d, storageSteps=%d, codeSteps=%d''
               [length accountSteps, length storageSteps, length codeSteps])))
    \<and> (length accountSteps = length storageSteps \<and> length storageSteps = length codeSteps
        \<longrightarrow> (\<exists>steps. MakeSteps ops a = Inr steps \<and> length steps = length accountSteps \<and>
              (\<forall>i < length steps. step_accounts (steps ! i) = accountSteps ! i \<and>
                 step_storage (steps ! i) = storageSteps ! i \<and>
                 step_code (steps ! i) = codeSteps ! i \<and> step_a (steps ! i) = a)))"
  using assms(2-4) by (auto simp add: MakeSteps_unfold [OF assms(1)] Let_def)

theorem MakeSteps_error_iff_counts_differ_witness:
  "aggregationStep sample_aggregator \<noteq> 0 \<and>
   h_MakeSteps sample_components (accounts sample_aggregator)
     (steps_frontier sample_components sample_aggregator) = [0, 1] \<and>
   h_MakeSteps sample_components (storage sample_aggregator)
     (steps_frontier sample_components sample_aggregator) = [0, 1] \<and>
   h_MakeSteps sample_components (code sample_aggregator)
     (steps_frontier sample_components sample_aggregator) = [0, 1] \<and>
   (\<exists>steps. MakeSteps sample_components sample_aggregator = Inr steps \<and> length steps = 2 \<and>
      (\<forall>i < length steps. step_accounts (steps ! i) = [0, 1] ! i \<and>
         step_storage (steps ! i) = [0, 1] ! i \<and> step_code (steps ! i) = [0, 1] ! i \<and>
         step_a (steps ! i) = sample_aggregator)) \<and>
   aggregationStep (sample_aggregator\<lparr>storage := 4\<rparr>) \<noteq> 0 \<and>
   h_MakeSteps sample_components (storage (sample_aggregator\<lparr>storage := 4\<rparr>))
     (steps_frontier sample_components (sample_aggregator\<lparr>storage := 4\<rparr>)) = [0] \<and>
   MakeSteps sample_components (sample_aggregator\<lparr>storage := 4\<rparr>)
     = Inl (Err (Errorf
         ''different limit of steps (try merge snapshots): accountSteps=%d, storageSteps=%d, codeSteps=%d''
         [2, 1, 2]))"
proof -
  let ?b = "sample_aggregator\<lparr>storage := 4\<rparr>"
  have two: "[0..<unat (8 div 4 :: uint64)] = [0, 1]" and one: "[0..<unat (4 div 4 :: uint64)] = [0]"
    by (simp_all add: upt2)
  have h0: "aggregationStep sample_aggregator \<noteq> 0"
    by (simp add: sample_aggregator_def)
  have h1: "h_MakeSteps sample_components (accounts sample_aggregator)
     (steps_frontier sample_components sample_aggregator) = [0, 1]"
    using two by (simp add: sample_components_def sample_aggregator_def)
  have h2: "h_MakeSteps sample_components (storage sample_aggregator)
     (steps_frontier sample_components sample_aggregator) = [0, 1]"
    using two by (simp add: sample_components_def sample_aggregator_def)
  have h3: "h_MakeSteps sample_components (code sample_aggregator)
     (steps_frontier sample_components sample_aggregator) = [0, 1]"
    using two by (simp add: sample_components_def sample_aggregator_def)
  have g0: "aggregationStep ?b \<noteq> 0"
    by (simp add: sample_aggregator_def)
  have g1: "h_MakeSteps sample_components (accounts ?b) (steps_frontier sample_components ?b)
      = [0, 1]"
    using two by (simp add: sample_components_def sample_aggregator_def)
  have g2: "h_MakeSteps sample_components (storage ?b) (steps_frontier sample_components ?b)
      = [0]"
    using one by (simp add: sample_components_def sample_aggregator_def)
  have g3: "h_MakeSteps sample_components (code ?b) (steps_frontier sample_components ?b)
      = [0, 1]"
    using two by (simp add: sample_components_def sample_aggregator_def)
  note eq = MakeSteps_error_iff_counts_differ [OF h0 h1 [symmetric] h2 [symmetric] h3 [symmetric]]
  note ne = MakeSteps_error_iff_counts_differ [OF g0 g1 [symmetric] g2 [symmetric] g3 [symmetric]]
  from eq have r1: "\<exists>steps. MakeSteps sample_components sample_aggregator = Inr steps \<and>
      length steps = 2 \<and>
      (\<forall>i < length steps. step_accounts (steps ! i) = [0, 1] ! i \<and>
         step_storage (steps ! i) = [0, 1] ! i \<and> step_code (steps ! i) = [0, 1] ! i \<and>
         step_a (steps ! i) = sample_aggregator)"
    by (simp add: numeral_2_eq_2)
  from ne have r2: "MakeSteps sample_components ?b
     = Inl (Err (Errorf
         ''different limit of steps (try merge snapshots): accountSteps=%d, storageSteps=%d, codeSteps=%d''
         [2, 1, 2]))"
    by simp
  show ?thesis
    using h0 h1 h2 h3 r1 g0 g2 r2 by blast
qed

end
